theory Spec2Isabelle
  imports Main
begin

section \<open>Python built-ins used by the travel planner\<close>

text \<open>
  A Python \<open>str\<close> is modelled as a \<open>string\<close>, one \<open>char\<close> per code point, so the
  model covers the code points U+0000 to U+00FF. \<open>isspace\<close> lists the code points
  of that range for which Python's \<open>str.isspace\<close> holds; these are the characters
  that \<open>str.strip()\<close> without argument removes.
\<close>

definition isspace :: "char \<Rightarrow> bool" where
  "isspace c = (c \<in> set [CHR 0x09, CHR 0x0A, CHR 0x0B, CHR 0x0C, CHR 0x0D,
                           CHR 0x1C, CHR 0x1D, CHR 0x1E, CHR 0x1F, CHR 0x20,
                           CHR 0x85, CHR 0xA0])"

definition lstrip :: "string \<Rightarrow> string" where
  "lstrip s = dropWhile isspace s"

definition rstrip :: "string \<Rightarrow> string" where
  "rstrip s = rev (dropWhile isspace (rev s))"

text \<open>\<open>s.strip()\<close>: leading and trailing whitespace removed.\<close>

definition strip :: "string \<Rightarrow> string" where
  "strip s = rstrip (lstrip s)"

text \<open>
  \<open>s.split(sep)\<close> for a one-character separator: a scan from the left that closes the
  current token at every occurrence of the separator and at the end of the string.
  \<open>cur\<close> holds the current token, reversed.
\<close>

fun split_scan :: "char \<Rightarrow> string \<Rightarrow> string \<Rightarrow> string list" where
  "split_scan sep cur [] = [rev cur]"
| "split_scan sep cur (c # cs) =
     (if c = sep then rev cur # split_scan sep [] cs
      else split_scan sep (c # cur) cs)"

definition split_py :: "char \<Rightarrow> string \<Rightarrow> string list" where
  "split_py sep s = split_scan sep [] s"

text \<open>\<open>sep.join(xs)\<close>.\<close>

fun join_py :: "string \<Rightarrow> string list \<Rightarrow> string" where
  "join_py sep [] = []"
| "join_py sep [x] = x"
| "join_py sep (x # y # ys) = x @ sep @ join_py sep (y # ys)"

section \<open>Console, errors and messages\<close>

text \<open>
  The console is the list of lines still to be read and the list of chunks written so
  far. An exception of the Python program is a value of \<open>error\<close>.
\<close>

record io =
  stdin :: "string list"
  stdout :: "string list"

datatype error =
    EOFError
  | TypeError string
  | ConfigurationError string
  | ServiceError string

text \<open>The failures that are configuration errors, as opposed to the other exceptions.\<close>

fun is_configuration_error :: "error \<Rightarrow> bool" where
  "is_configuration_error (ConfigurationError msg) = True"
| "is_configuration_error e = False"

datatype message = HumanMessage string | AIMessage string | SystemMessage string

fun content :: "message \<Rightarrow> string" where
  "content (HumanMessage c) = c"
| "content (AIMessage c) = c"
| "content (SystemMessage c) = c"

text \<open>\<open>print(x)\<close> writes \<open>x\<close> and a newline.\<close>

definition print_py :: "string \<Rightarrow> io \<Rightarrow> io" where
  "print_py x w = w\<lparr>stdout := stdout w @ [x @ [CHR 0x0A]]\<rparr>"

text \<open>
  \<open>input(prompt)\<close> writes the prompt and returns the next line without its newline;
  it raises \<open>EOFError\<close> when the input is exhausted.
\<close>

definition input_py :: "string \<Rightarrow> io \<Rightarrow> error + (string \<times> io)" where
  "input_py prompt w =
     (case stdin w of
        [] \<Rightarrow> Inl EOFError
      | l # ls \<Rightarrow> Inr (l, w\<lparr>stdin := ls, stdout := stdout w @ [prompt]\<rparr>))"

section \<open>The planner state and its three steps\<close>

record PlannerState =
  messages :: "message list"
  city :: string
  interests :: "string list"
  itinerary :: string

type_synonym step = "PlannerState \<Rightarrow> io \<Rightarrow> error + (PlannerState \<times> io)"

text \<open>
  The text-generation service: \<open>llm.invoke(msgs).content\<close>, or the exception the call
  raises.
\<close>

type_synonym llm = "message list \<Rightarrow> error + string"

text \<open>\<open>itinerary_prompt.format_messages(city=c, interests=i)\<close>.\<close>

definition itinerary_prompt :: "string \<Rightarrow> string \<Rightarrow> message list" where
  "itinerary_prompt c i =
     [SystemMessage (''You are a helpful travel assistant. Create a day trip itinerary for ''
        @ c @ '' based on the user's interests: '' @ i
        @ ''. Provide a brief, bulleted itinerary.''),
      HumanMessage ''Create an itinerary for my day trip.'']"

definition input_city :: step where
  "input_city state w =
     (case input_py ''Your input: ''
             (print_py ''Please enter the city you want to visit for your day trip:'' w) of
        Inl e \<Rightarrow> Inl e
      | Inr (user_message, w') \<Rightarrow>
          Inr (state\<lparr>city := user_message,
                     messages := messages state @ [HumanMessage user_message]\<rparr>, w'))"

definition input_interests :: step where
  "input_interests state w =
     (case input_py ''Your input: ''
             (print_py (''Please enter your interests for the trip to '' @ city state
                        @ '' (comma-separated):'') w) of
        Inl e \<Rightarrow> Inl e
      | Inr (user_message, w') \<Rightarrow>
          Inr (state\<lparr>interests := map strip (split_py CHR '','' user_message),
                     messages := messages state @ [HumanMessage user_message]\<rparr>, w'))"

definition create_itinerary :: "llm \<Rightarrow> step" where
  "create_itinerary invoke state w =
     (let w1 = print_py (''Creating an itinerary for '' @ city state
                         @ '' based on interests: '' @ join_py '', '' (interests state)
                         @ ''...'') w
      in case invoke (itinerary_prompt (city state) (join_py '', '' (interests state))) of
           Inl e \<Rightarrow> Inl e
         | Inr response \<Rightarrow>
             Inr (state\<lparr>messages := messages state @ [AIMessage response],
                        itinerary := response\<rparr>,
                  print_py response (print_py (CHR 0x0A # ''Final Itinerary:'') w1)))"

text \<open>
  Sequential composition of steps: the state a step returns is the input of the next
  one, and a step that raises ends the chain. \<open>three_steps\<close> is the chain of the three
  steps in the order of the workflow's edges.
\<close>

definition then_step ::
  "error + (PlannerState \<times> io) \<Rightarrow> step \<Rightarrow> error + (PlannerState \<times> io)" where
  "then_step r f = (case r of Inl e \<Rightarrow> Inl e | Inr (state, w) \<Rightarrow> f state w)"

definition three_steps :: "llm \<Rightarrow> step" where
  "three_steps invoke state w =
     then_step (then_step (input_city state w) input_interests) (create_itinerary invoke)"

section \<open>The workflow executor\<close>

text \<open>
  The notebook builds its workflow with the \<open>StateGraph\<close> class of the langgraph
  library, which is not part of the repository's sources. The builder and the executor
  below are modelled from the specification's description of the workflow executor.
\<close>

text \<open>
  Modelled from the spec: the executor's data. A connection leads to a registered step
  or to the terminal marker; a workflow under configuration holds the step table, the
  entry step once it is set, and the connections; a compiled workflow holds the same
  with its entry step fixed.
\<close>

datatype target = Step string | END

record StateGraph =
  nodes :: "(string \<times> step) list"
  entry_point :: "string option"
  edges :: "(string \<times> target) list"

record CompiledGraph =
  step_table :: "(string \<times> step) list"
  entry :: string
  successor :: "(string \<times> target) list"

text \<open>
  Modelled from the spec: the calls of the configuration phase, named as the notebook
  writes them, and the test whether a name is in the step table.
\<close>

datatype call =
    add_node string step
  | set_entry_point string
  | add_edge string target

definition registered :: "StateGraph \<Rightarrow> string \<Rightarrow> bool" where
  "registered g name = (name \<in> set (map fst (nodes g)))"

text \<open>
  Modelled from the spec: the executor's \<open>register\<close>, \<open>setEntry\<close> and \<open>connect\<close>
  (langgraph's \<open>add_node\<close>, \<open>set_entry_point\<close> and \<open>add_edge\<close>, missing from the
  sources). \<open>register\<close> adds a named step to the step table and fails with a
  configuration error if the name is already registered; \<open>setEntry\<close> fails if the name
  is not registered; \<open>connect\<close> fails if either name, other than the terminal marker,
  is unregistered.
\<close>

fun apply_call :: "call \<Rightarrow> StateGraph \<Rightarrow> error + StateGraph" where
  "apply_call (add_node name f) g =
     (if registered g name then Inl (ConfigurationError ''step already registered'')
      else Inr (g\<lparr>nodes := nodes g @ [(name, f)]\<rparr>))"
| "apply_call (set_entry_point name) g =
     (if registered g name then Inr (g\<lparr>entry_point := Some name\<rparr>)
      else Inl (ConfigurationError ''entry step not registered''))"
| "apply_call (add_edge a b) g =
     (if \<not> registered g a then Inl (ConfigurationError ''source step not registered'')
      else if (case b of Step n \<Rightarrow> \<not> registered g n | END \<Rightarrow> False)
        then Inl (ConfigurationError ''target step not registered'')
      else Inr (g\<lparr>edges := edges g @ [(a, b)]\<rparr>))"

text \<open>
  Modelled from the spec: configuration errors are fatal, so the configuration calls run
  in order and the first failure ends the script.
\<close>

fun configure :: "call list \<Rightarrow> StateGraph \<Rightarrow> error + StateGraph" where
  "configure [] g = Inr g"
| "configure (c # cs) g =
     (case apply_call c g of Inl e \<Rightarrow> Inl e | Inr g' \<Rightarrow> configure cs g')"

text \<open>
  Modelled from the spec: the check for cycles. Following the connections from a step
  reaches the terminal marker in at most \<open>k\<close> moves.
\<close>

fun reaches_END :: "(string \<times> target) list \<Rightarrow> nat \<Rightarrow> target \<Rightarrow> bool" where
  "reaches_END es k END = True"
| "reaches_END es 0 (Step n) = False"
| "reaches_END es (Suc k) (Step n) =
     (case map_of es n of None \<Rightarrow> False | Some t \<Rightarrow> reaches_END es k t)"

text \<open>
  Modelled from the spec: the executor's \<open>compile\<close> (langgraph's \<open>compile\<close>, missing
  from the sources). It validates that the entry step is set and that every registered
  step has exactly one outgoing connection, and rejects a cycle; it fails with a
  configuration error otherwise.
\<close>

definition compile :: "StateGraph \<Rightarrow> error + CompiledGraph" where
  "compile g =
     (case entry_point g of
        None \<Rightarrow> Inl (ConfigurationError ''missing entry step'')
      | Some e \<Rightarrow>
          if \<not> list_all (\<lambda>(n, f). length (filter (\<lambda>(a, b). a = n) (edges g)) = 1) (nodes g)
            then Inl (ConfigurationError ''step without exactly one outgoing connection'')
          else if \<not> list_all (\<lambda>(n, f). reaches_END (edges g) (length (nodes g)) (Step n))
                      (nodes g)
            then Inl (ConfigurationError ''cycle'')
          else Inr \<lparr>step_table = nodes g, entry = e, successor = edges g\<rparr>)"

text \<open>
  Modelled from the spec: the executor's \<open>run\<close> (the compiled langgraph application,
  missing from the sources). Starting from the entry step it invokes the current step's
  function with the current state, replaces the state with the function's return value
  and advances to the connected next step; it stops when the terminal marker is reached
  and returns the final state. A failure raised by a step aborts the run. The loop is a
  partial function: \<open>None\<close> stands for a run that never ends.
\<close>

partial_function (option) run_from ::
  "CompiledGraph \<Rightarrow> target \<Rightarrow> PlannerState \<Rightarrow> io \<Rightarrow> (error + (PlannerState \<times> io)) option"
where
  "run_from g cur state w =
     (case cur of
        END \<Rightarrow> Some (Inr (state, w))
      | Step n \<Rightarrow>
          (case map_of (step_table g) n of
             None \<Rightarrow> Some (Inl (ConfigurationError ''unregistered step''))
           | Some f \<Rightarrow>
               (case f state w of
                  Inl e \<Rightarrow> Some (Inl e)
                | Inr (state', w') \<Rightarrow>
                    (case map_of (successor g) n of
                       None \<Rightarrow> Some (Inl (ConfigurationError ''dangling step''))
                     | Some nxt \<Rightarrow> run_from g nxt state' w'))))"

text \<open>Modelled from the spec: \<open>run\<close> starts from the entry step.\<close>

definition run ::
  "CompiledGraph \<Rightarrow> PlannerState \<Rightarrow> io \<Rightarrow> (error + (PlannerState \<times> io)) option" where
  "run g state w = run_from g (Step (entry g)) state w"

section \<open>The notebook\<close>

text \<open>\<open>workflow = StateGraph(PlannerState)\<close> and the configuration calls that follow it.\<close>

definition workflow :: "llm \<Rightarrow> error + StateGraph" where
  "workflow invoke =
     configure
       [add_node ''input_city'' input_city,
        add_node ''input_interests'' input_interests,
        add_node ''create_itinerary'' (create_itinerary invoke),
        set_entry_point ''input_city'',
        add_edge ''input_city'' (Step ''input_interests''),
        add_edge ''input_interests'' (Step ''create_itinerary''),
        add_edge ''create_itinerary'' END]
       \<lparr>nodes = [], entry_point = None, edges = []\<rparr>"

text \<open>\<open>app = workflow.compile()\<close>.\<close>

definition app :: "llm \<Rightarrow> error + CompiledGraph" where
  "app invoke = (case workflow invoke of Inl e \<Rightarrow> Inl e | Inr g \<Rightarrow> compile g)"

text \<open>The state that \<open>run_travel_planner\<close> builds from the user's request.\<close>

definition initial_state :: "string \<Rightarrow> PlannerState" where
  "initial_state user_request =
     \<lparr>messages = [HumanMessage user_request], city = '''', interests = [], itinerary = ''''\<rparr>"

text \<open>
  \<open>run_travel_planner\<close> prints the request, runs the compiled application on the
  initial state and drops the states it yields: only the console remains.
\<close>

definition run_travel_planner :: "CompiledGraph \<Rightarrow> string \<Rightarrow> io \<Rightarrow> (error + io) option" where
  "run_travel_planner a user_request w =
     (case run a (initial_state user_request)
             (print_py (''Initial Request: '' @ user_request @ [CHR 0x0A]) w) of
        None \<Rightarrow> None
      | Some (Inl e) \<Rightarrow> Some (Inl e)
      | Some (Inr (state, w')) \<Rightarrow> Some (Inr w'))"

text \<open>
  The process environment maps variable names to values. \<open>load_dotenv()\<close> adds the
  assignments of the \<open>.env\<close> file for the variables that are not set already;
  \<open>os.getenv\<close> returns \<open>None\<close> for a variable that is not set, and the assignment
  \<open>os.environ[k] = v\<close> raises \<open>TypeError\<close> when \<open>v\<close> is \<open>None\<close>.
\<close>

type_synonym env = "string \<rightharpoonup> string"

definition load_dotenv :: "env \<Rightarrow> env \<Rightarrow> env" where
  "load_dotenv dotenv environ = dotenv ++ environ"

definition getenv :: "env \<Rightarrow> string \<Rightarrow> string option" where
  "getenv environ k = environ k"

definition environ_setitem :: "env \<Rightarrow> string \<Rightarrow> string option \<Rightarrow> error + env" where
  "environ_setitem environ k v =
     (case v of
        None \<Rightarrow> Inl (TypeError ''str expected, not NoneType'')
      | Some x \<Rightarrow> Inr (environ(k \<mapsto> x)))"

text \<open>The first code cell, after its imports.\<close>

definition environment_setup :: "env \<Rightarrow> env \<Rightarrow> error + env" where
  "environment_setup dotenv environ =
     (let environ1 = load_dotenv dotenv environ
      in environ_setitem environ1 ''OPENAI_API_KEY'' (getenv environ1 ''OPENAI_API_KEY''))"

text \<open>
  The code cells in order: the set-up of the environment, the construction of the
  language-model client, the construction and compilation of the workflow, and the
  example request. An exception in a cell stops the notebook. The constructor of the
  client, \<open>ChatOpenAI(model="gpt-4o-mini")\<close>, belongs to a library: it is a parameter
  that gives, for the environment it finds, the service or the exception that the
  constructor raises. The definition of the prompt template is part of
  \<open>itinerary_prompt\<close>. The cell that draws the graph is left out.
\<close>

definition notebook ::
  "env \<Rightarrow> env \<Rightarrow> (env \<Rightarrow> error + llm) \<Rightarrow> io \<Rightarrow> (error + io) option" where
  "notebook dotenv environ ChatOpenAI w =
     (case environment_setup dotenv environ of
        Inl e \<Rightarrow> Some (Inl e)
      | Inr environ' \<Rightarrow>
          (case ChatOpenAI environ' of
             Inl e \<Rightarrow> Some (Inl e)
           | Inr invoke \<Rightarrow>
               (case app invoke of
                  Inl e \<Rightarrow> Some (Inl e)
                | Inr a \<Rightarrow> run_travel_planner a ''I want to plan a day trip.'' w)))"

section \<open>The specification's wording\<close>

text \<open>
  \<open>toks\<close> is the line split on commas: joined with commas the tokens give the line
  back, and no token holds a comma.
\<close>

definition comma_separated :: "string \<Rightarrow> string list \<Rightarrow> bool" where
  "comma_separated line toks =
     (toks \<noteq> [] \<and> list_all (\<lambda>t. CHR '','' \<notin> set t) toks \<and> join_py '','' toks = line)"

text \<open>
  \<open>t\<close> is \<open>raw\<close> with its leading and trailing whitespace removed: only whitespace
  surrounds \<open>t\<close> in \<open>raw\<close>, and \<open>t\<close> neither starts nor ends with whitespace.
\<close>

definition trimmed :: "string \<Rightarrow> string \<Rightarrow> bool" where
  "trimmed raw t =
     ((\<exists>a b. raw = a @ t @ b \<and> list_all isspace a \<and> list_all isspace b)
      \<and> (t \<noteq> [] \<longrightarrow> \<not> isspace (hd t) \<and> \<not> isspace (last t)))"


text \<open>
  The topology the specification names: the straight chain from the city input over the
  interests input to the itinerary creation and the terminal marker.
\<close>

definition straight_chain :: "llm \<Rightarrow> CompiledGraph" where
  "straight_chain invoke =
     \<lparr>step_table = [(''input_city'', input_city), (''input_interests'', input_interests),
                    (''create_itinerary'', create_itinerary invoke)],
      entry = ''input_city'',
      successor = [(''input_city'', Step ''input_interests''),
                   (''input_interests'', Step ''create_itinerary''),
                   (''create_itinerary'', END)]\<rparr>"

text \<open>The console after a run that read the lines \<open>l1\<close> and \<open>l2\<close> and received \<open>r\<close>.\<close>

definition final_console :: "io \<Rightarrow> string \<Rightarrow> string \<Rightarrow> string list \<Rightarrow> string \<Rightarrow> io" where
  "final_console w l1 l2 rest r =
     w\<lparr>stdin := rest,
       stdout := stdout w
         @ [''Please enter the city you want to visit for your day trip:'' @ [CHR 0x0A],
            ''Your input: '',
            ''Please enter your interests for the trip to '' @ l1
              @ '' (comma-separated):'' @ [CHR 0x0A],
            ''Your input: '',
            ''Creating an itinerary for '' @ l1 @ '' based on interests: ''
              @ join_py '', '' (map strip (split_py CHR '','' l2)) @ ''...'' @ [CHR 0x0A],
            CHR 0x0A # ''Final Itinerary:'' @ [CHR 0x0A],
            r @ [CHR 0x0A]]\<rparr>"

section \<open>Properties of the steps\<close>

lemma input_py_Cons:
  "stdin w = l # ls \<Longrightarrow>
   input_py p w = Inr (l, w\<lparr>stdin := ls, stdout := stdout w @ [p]\<rparr>)"
  by (simp add: input_py_def)

lemma stdin_print_py: "stdin (print_py x w) = stdin w"
  by (simp add: print_py_def)

lemma input_city_Cons:
  "stdin w = line # rest \<Longrightarrow>
   input_city state w =
     Inr (state\<lparr>city := line, messages := messages state @ [HumanMessage line]\<rparr>,
          w\<lparr>stdin := rest,
            stdout := stdout w
              @ [''Please enter the city you want to visit for your day trip:'' @ [CHR 0x0A],
                 ''Your input: '']\<rparr>)"
  by (simp add: input_city_def input_py_Cons stdin_print_py print_py_def)

lemma input_interests_Cons:
  "stdin w = line # rest \<Longrightarrow>
   input_interests state w =
     Inr (state\<lparr>interests := map strip (split_py CHR '','' line),
                messages := messages state @ [HumanMessage line]\<rparr>,
          w\<lparr>stdin := rest,
            stdout := stdout w
              @ [''Please enter your interests for the trip to '' @ city state
                   @ '' (comma-separated):'' @ [CHR 0x0A],
                 ''Your input: '']\<rparr>)"
  by (simp add: input_interests_def input_py_Cons stdin_print_py print_py_def)

text \<open>
  C4: the city step stores the line it reads as it is, with no trimming or other
  change, and appends it as a user message; the line \<open>paris\<close> gives the city
  \<open>paris\<close>.
\<close>

theorem input_city_keeps_line:
  "stdin w = line # rest \<Longrightarrow>
   input_city state w =
     Inr (state\<lparr>city := line, messages := messages state @ [HumanMessage line]\<rparr>,
          w\<lparr>stdin := rest,
            stdout := stdout w
              @ [''Please enter the city you want to visit for your day trip:'' @ [CHR 0x0A],
                 ''Your input: '']\<rparr>)"
  by (rule input_city_Cons)

theorem input_city_paris:
  "stdin \<lparr>stdin = [''paris'', ''food''], stdout = []\<rparr> = ''paris'' # [''food'']
   \<and> \<not> isl (input_city
        \<lparr>messages = [HumanMessage ''I want to plan a day trip.''], city = '''',
         interests = [], itinerary = ''''\<rparr>
        \<lparr>stdin = [''paris'', ''food''], stdout = []\<rparr>)
   \<and> city (fst (projr (input_city
        \<lparr>messages = [HumanMessage ''I want to plan a day trip.''], city = '''',
         interests = [], itinerary = ''''\<rparr>
        \<lparr>stdin = [''paris'', ''food''], stdout = []\<rparr>))) = ''paris''"
  using input_city_keeps_line
    [of "\<lparr>stdin = [''paris'', ''food''], stdout = []\<rparr>" "''paris''" "[''food'']"
        "\<lparr>messages = [HumanMessage ''I want to plan a day trip.''], city = '''',
          interests = [], itinerary = ''''\<rparr>"]
  by simp

subsection \<open>Splitting and stripping\<close>

lemma join_py_Cons: "join_py sep (x # xs) = (if xs = [] then x else x @ sep @ join_py sep xs)"
  by (cases xs) simp_all

lemma split_scan_not_Nil: "split_scan sep cur s \<noteq> []"
  by (induction s arbitrary: cur) simp_all

lemma join_split_scan: "join_py [sep] (split_scan sep cur s) = rev cur @ s"
  by (induction s arbitrary: cur) (simp_all add: join_py_Cons split_scan_not_Nil)

lemma split_scan_no_sep:
  "sep \<notin> set cur \<Longrightarrow> list_all (\<lambda>t. sep \<notin> set t) (split_scan sep cur s)"
  by (induction s arbitrary: cur) simp_all

lemma length_split_scan: "length (split_scan sep cur s) = Suc (count_list s sep)"
  by (induction s arbitrary: cur) simp_all

lemma comma_separated_split_py: "comma_separated line (split_py CHR '','' line)"
  by (simp add: comma_separated_def split_py_def split_scan_not_Nil split_scan_no_sep
      join_split_scan)

lemma sep_split_eq:
  "x @ c # r = y @ c # r' \<Longrightarrow> c \<notin> set x \<Longrightarrow> c \<notin> set y \<Longrightarrow> x = y \<and> r = r'"
proof (induction x arbitrary: y)
  case Nil
  then show ?case by (cases y) auto
next
  case (Cons a x)
  then show ?case by (cases y) auto
qed

lemma join_unique:
  "join_py [c] xs = join_py [c] ys \<Longrightarrow> xs \<noteq> [] \<Longrightarrow> ys \<noteq> [] \<Longrightarrow>
   list_all (\<lambda>t. c \<notin> set t) xs \<Longrightarrow> list_all (\<lambda>t. c \<notin> set t) ys \<Longrightarrow> xs = ys"
proof (induction xs arbitrary: ys)
  case Nil
  then show ?case by simp
next
  case (Cons x xs)
  then obtain y ys' where ys: "ys = y # ys'" by (cases ys) auto
  show ?case
  proof (cases "xs = []")
    case True
    show ?thesis
    proof (cases "ys' = []")
      case True
      with \<open>xs = []\<close> Cons.prems ys show ?thesis by simp
    next
      case False
      with \<open>xs = []\<close> Cons.prems ys have "x = y @ c # join_py [c] ys'"
        by (simp add: join_py_Cons)
      with Cons.prems show ?thesis by auto
    qed
  next
    case False
    show ?thesis
    proof (cases "ys' = []")
      case True
      with \<open>xs \<noteq> []\<close> Cons.prems ys have "y = x @ c # join_py [c] xs"
        by (simp add: join_py_Cons)
      with Cons.prems ys show ?thesis by auto
    next
      case ne: False
      with False Cons.prems ys have "x @ c # join_py [c] xs = y @ c # join_py [c] ys'"
        by (simp add: join_py_Cons)
      moreover have "c \<notin> set x" "c \<notin> set y" using Cons.prems ys by auto
      ultimately have xy: "x = y \<and> join_py [c] xs = join_py [c] ys'"
        by (rule sep_split_eq)
      have "list_all (\<lambda>t. c \<notin> set t) xs" "list_all (\<lambda>t. c \<notin> set t) ys'"
        using Cons.prems ys by simp_all
      with xy False ne have "xs = ys'"
        by (intro Cons.IH) simp_all
      with xy ys show ?thesis by simp
    qed
  qed
qed

lemma comma_separated_unique:
  "comma_separated line xs \<Longrightarrow> comma_separated line ys \<Longrightarrow> xs = ys"
  unfolding comma_separated_def using join_unique [of "CHR '',''" xs ys] by auto

lemma dropWhile_all: "list_all P xs \<Longrightarrow> dropWhile P (xs @ ys) = dropWhile P ys"
  by (induction xs) simp_all

lemma dropWhile_hd: "xs \<noteq> [] \<Longrightarrow> \<not> P (hd xs) \<Longrightarrow> dropWhile P xs = xs"
  by (cases xs) simp_all

lemma trimmed_imp_strip:
  assumes "trimmed raw t"
  shows "t = strip raw"
proof -
  from assms obtain a b where raw: "raw = a @ t @ b" and a: "list_all isspace a"
    and b: "list_all isspace b"
    and ends: "t \<noteq> [] \<longrightarrow> \<not> isspace (hd t) \<and> \<not> isspace (last t)"
    unfolding trimmed_def by blast
  show ?thesis
  proof (cases "t = []")
    case True
    have d: "dropWhile isspace raw = []"
      using a b True raw by (simp add: list_all_iff)
    have "strip raw = []"
      unfolding strip_def lstrip_def rstrip_def by (simp only: d rev.simps dropWhile.simps)
    with True show ?thesis by simp
  next
    case False
    then have "dropWhile isspace (t @ b) = t @ b"
      using ends by (intro dropWhile_hd) simp_all
    then have l: "lstrip raw = t @ b"
      using a raw by (simp add: lstrip_def dropWhile_all)
    have "list_all isspace (rev b)" using b by (simp add: list_all_iff)
    then have "dropWhile isspace (rev b @ rev t) = dropWhile isspace (rev t)"
      by (rule dropWhile_all)
    moreover have "dropWhile isspace (rev t) = rev t"
      using False ends by (intro dropWhile_hd) (simp_all add: hd_rev)
    ultimately show ?thesis using l by (simp add: strip_def rstrip_def)
  qed
qed

lemma rstrip_decomp: "\<exists>b. u = rstrip u @ b \<and> list_all isspace b"
proof -
  have "rev u = takeWhile isspace (rev u) @ dropWhile isspace (rev u)" by simp
  then have "u = rev (dropWhile isspace (rev u)) @ rev (takeWhile isspace (rev u))"
    by (metis rev_append rev_rev_ident)
  moreover have "list_all isspace (rev (takeWhile isspace (rev u)))"
    by (simp add: list_all_iff) (meson set_takeWhileD)
  ultimately show ?thesis unfolding rstrip_def by blast
qed

lemma trimmed_strip: "trimmed raw (strip raw)"
proof -
  obtain b where b: "lstrip raw = strip raw @ b" "list_all isspace b"
    using rstrip_decomp [of "lstrip raw"] by (auto simp: strip_def)
  have a: "raw = takeWhile isspace raw @ lstrip raw" "list_all isspace (takeWhile isspace raw)"
    by (simp_all add: lstrip_def list_all_iff) (meson set_takeWhileD)
  have dec: "\<exists>a b. raw = a @ strip raw @ b \<and> list_all isspace a \<and> list_all isspace b"
    using a b by metis
  have ends: "\<not> isspace (hd (strip raw)) \<and> \<not> isspace (last (strip raw))" if ne: "strip raw \<noteq> []"
  proof
    from ne have "lstrip raw \<noteq> []" using b by auto
    then have "\<not> isspace (hd (lstrip raw))"
      unfolding lstrip_def by (rule hd_dropWhile)
    moreover have "hd (lstrip raw) = hd (strip raw)" using b ne by (metis hd_append2)
    ultimately show "\<not> isspace (hd (strip raw))" by simp
    let ?d = "dropWhile isspace (rev (lstrip raw))"
    from ne have d: "?d \<noteq> []" by (simp add: strip_def rstrip_def)
    then have "\<not> isspace (hd ?d)" by (rule hd_dropWhile)
    moreover have "last (strip raw) = hd ?d"
      using d by (simp add: strip_def rstrip_def last_rev)
    ultimately show "\<not> isspace (last (strip raw))" by simp
  qed
  show ?thesis unfolding trimmed_def using dec ends by blast
qed

lemma split_strip_characterised:
  "(map strip (split_py CHR '','' line) = toks)
   \<longleftrightarrow> (\<exists>raw. comma_separated line raw \<and> list_all2 trimmed raw toks)"
proof
  assume "map strip (split_py CHR '','' line) = toks"
  then have "list_all2 trimmed (split_py CHR '','' line) toks"
    by (auto simp: list_all2_conv_all_nth trimmed_strip)
  then show "\<exists>raw. comma_separated line raw \<and> list_all2 trimmed raw toks"
    using comma_separated_split_py by blast
next
  assume "\<exists>raw. comma_separated line raw \<and> list_all2 trimmed raw toks"
  then obtain raw where raw: "comma_separated line raw" and t: "list_all2 trimmed raw toks"
    by blast
  from raw have "raw = split_py CHR '','' line"
    using comma_separated_split_py by (rule comma_separated_unique)
  moreover from t have "toks = map strip raw"
    by (induction rule: list_all2_induct) (simp_all add: trimmed_imp_strip)
  ultimately show "map strip (split_py CHR '','' line) = toks" by simp
qed

text \<open>
  C2: for every line read by the interests step, the interests field is the sequence
  obtained by splitting the line on commas and stripping the leading and trailing
  whitespace of each token, and the raw line is appended as a user message. The
  sequence computed by the code is the only one that fits this description. The line
  \<open>food, wine, art\<close> gives the three interests \<open>food\<close>, \<open>wine\<close> and \<open>art\<close>.
\<close>

theorem input_interests_splits_and_strips:
  "stdin w = line # rest \<Longrightarrow>
   input_interests state w =
     Inr (state\<lparr>interests := map strip (split_py CHR '','' line),
                messages := messages state @ [HumanMessage line]\<rparr>,
          w\<lparr>stdin := rest,
            stdout := stdout w
              @ [''Please enter your interests for the trip to '' @ city state
                   @ '' (comma-separated):'' @ [CHR 0x0A],
                 ''Your input: '']\<rparr>)
   \<and> (\<forall>toks. (map strip (split_py CHR '','' line) = toks)
         \<longleftrightarrow> (\<exists>raw. comma_separated line raw \<and> list_all2 trimmed raw toks))"
  using input_interests_Cons split_strip_characterised by blast

theorem input_interests_food_wine_art:
  "stdin \<lparr>stdin = [''food, wine, art''], stdout = []\<rparr> = ''food, wine, art'' # []
   \<and> \<not> isl (input_interests (initial_state ''I want to plan a day trip.'')
               \<lparr>stdin = [''food, wine, art''], stdout = []\<rparr>)
   \<and> interests (fst (projr (input_interests (initial_state ''I want to plan a day trip.'')
               \<lparr>stdin = [''food, wine, art''], stdout = []\<rparr>)))
       = [''food'', ''wine'', ''art'']
   \<and> messages (fst (projr (input_interests (initial_state ''I want to plan a day trip.'')
               \<lparr>stdin = [''food, wine, art''], stdout = []\<rparr>)))
       = [HumanMessage ''I want to plan a day trip.'', HumanMessage ''food, wine, art'']"
proof -
  have h: "stdin \<lparr>stdin = [''food, wine, art''], stdout = []\<rparr> = ''food, wine, art'' # []"
    by simp
  have v: "map strip (split_py CHR '','' ''food, wine, art'') = [''food'', ''wine'', ''art'']"
    by (simp add: split_py_def strip_def lstrip_def rstrip_def isspace_def)
  from input_interests_splits_and_strips
         [OF h, of "initial_state ''I want to plan a day trip.''", THEN conjunct1]
  show ?thesis
    by (simp add: v initial_state_def)
qed

text \<open>
  C5: when the interests step reads the empty line, the interests field is the
  one-element sequence holding the empty string: the step succeeds, and the empty
  token is kept.
\<close>

theorem input_interests_empty_line:
  "stdin w = '''' # rest \<Longrightarrow>
   input_interests state w =
     Inr (state\<lparr>interests := [''''], messages := messages state @ [HumanMessage '''']\<rparr>,
          w\<lparr>stdin := rest,
            stdout := stdout w
              @ [''Please enter your interests for the trip to '' @ city state
                   @ '' (comma-separated):'' @ [CHR 0x0A],
                 ''Your input: '']\<rparr>)"
proof -
  assume h: "stdin w = '''' # rest"
  have v: "map strip (split_py CHR '','' '''') = ['''']"
    by (simp add: split_py_def strip_def lstrip_def rstrip_def)
  show ?thesis
    by (simp only: input_interests_Cons [OF h] v)
qed

theorem input_interests_empty_line_example:
  "stdin \<lparr>stdin = ['''', ''x''], stdout = []\<rparr> = '''' # [''x'']
   \<and> \<not> isl (input_interests (initial_state ''I want to plan a day trip.'')
               \<lparr>stdin = ['''', ''x''], stdout = []\<rparr>)
   \<and> interests (fst (projr (input_interests (initial_state ''I want to plan a day trip.'')
               \<lparr>stdin = ['''', ''x''], stdout = []\<rparr>))) = ['''']"
proof -
  have h: "stdin \<lparr>stdin = ['''', ''x''], stdout = []\<rparr> = '''' # [''x'']"
    by simp
  from input_interests_empty_line [OF h, of "initial_state ''I want to plan a day trip.''"]
  show ?thesis by simp
qed

subsection \<open>The executor on the notebook's workflow\<close>

lemma workflow_value:
  "workflow invoke =
     Inr \<lparr>nodes = [(''input_city'', input_city), (''input_interests'', input_interests),
                    (''create_itinerary'', create_itinerary invoke)],
          entry_point = Some ''input_city'',
          edges = [(''input_city'', Step ''input_interests''),
                   (''input_interests'', Step ''create_itinerary''),
                   (''create_itinerary'', END)]\<rparr>"
  by (simp add: workflow_def registered_def)

lemma app_value: "app invoke = Inr (straight_chain invoke)"
  by (simp add: app_def workflow_value compile_def straight_chain_def numeral_3_eq_3)

lemma run_from_END: "run_from g END state w = Some (Inr (state, w))"
  by (subst run_from.simps) simp

lemma run_from_Step:
  "map_of (step_table g) n = Some f \<Longrightarrow> map_of (successor g) n = Some nxt \<Longrightarrow>
   run_from g (Step n) state w =
     (case f state w of Inl e \<Rightarrow> Some (Inl e) | Inr (state', w') \<Rightarrow> run_from g nxt state' w')"
  by (subst run_from.simps) (simp split: sum.splits)

lemma run_straight_chain: "run (straight_chain invoke) state w = Some (three_steps invoke state w)"
proof -
  let ?g = "straight_chain invoke"
  have 1: "run_from ?g (Step ''input_city'') s v =
      (case input_city s v of Inl e \<Rightarrow> Some (Inl e)
       | Inr (s', v') \<Rightarrow> run_from ?g (Step ''input_interests'') s' v')" for s v
    by (rule run_from_Step) (simp_all add: straight_chain_def)
  have 2: "run_from ?g (Step ''input_interests'') s v =
      (case input_interests s v of Inl e \<Rightarrow> Some (Inl e)
       | Inr (s', v') \<Rightarrow> run_from ?g (Step ''create_itinerary'') s' v')" for s v
    by (rule run_from_Step) (simp_all add: straight_chain_def)
  have 3: "run_from ?g (Step ''create_itinerary'') s v =
      (case create_itinerary invoke s v of Inl e \<Rightarrow> Some (Inl e)
       | Inr (s', v') \<Rightarrow> run_from ?g END s' v')" for s v
    by (rule run_from_Step) (simp_all add: straight_chain_def)
  have e: "entry ?g = ''input_city''" by (simp add: straight_chain_def)
  show ?thesis
    unfolding run_def e 1 three_steps_def then_step_def
    by (simp add: 2 3 run_from_END split: sum.splits prod.splits)
qed

lemma input_py_Nil: "stdin w = [] \<Longrightarrow> input_py p w = Inl EOFError"
  by (simp add: input_py_def)

lemma input_city_Nil: "stdin w = [] \<Longrightarrow> input_city state w = Inl EOFError"
  by (simp add: input_city_def input_py_Nil stdin_print_py)

lemma input_interests_Nil: "stdin w = [] \<Longrightarrow> input_interests state w = Inl EOFError"
  by (simp add: input_interests_def input_py_Nil stdin_print_py)

lemma create_itinerary_Inr:
  "invoke (itinerary_prompt (city state) (join_py '', '' (interests state))) = Inr r \<Longrightarrow>
   create_itinerary invoke state w =
     Inr (state\<lparr>messages := messages state @ [AIMessage r], itinerary := r\<rparr>,
          w\<lparr>stdout := stdout w
              @ [''Creating an itinerary for '' @ city state @ '' based on interests: ''
                   @ join_py '', '' (interests state) @ ''...'' @ [CHR 0x0A],
                 CHR 0x0A # ''Final Itinerary:'' @ [CHR 0x0A],
                 r @ [CHR 0x0A]]\<rparr>)"
  by (simp add: create_itinerary_def print_py_def)

lemma create_itinerary_Inl:
  "invoke (itinerary_prompt (city state) (join_py '', '' (interests state))) = Inl e \<Longrightarrow>
   create_itinerary invoke state w = Inl e"
  by (simp add: create_itinerary_def)

lemma three_steps_no_line: "stdin w = [] \<Longrightarrow> three_steps invoke state w = Inl EOFError"
  by (simp add: three_steps_def then_step_def input_city_Nil)

lemma three_steps_one_line: "stdin w = [l1] \<Longrightarrow> three_steps invoke state w = Inl EOFError"
  by (simp add: three_steps_def then_step_def input_city_Cons input_interests_Nil)

lemma three_steps_service_error:
  "stdin w = l1 # l2 # rest \<Longrightarrow>
   invoke (itinerary_prompt l1 (join_py '', '' (map strip (split_py CHR '','' l2)))) = Inl e \<Longrightarrow>
   three_steps invoke state w = Inl e"
  by (simp add: three_steps_def then_step_def input_city_Cons input_interests_Cons
      create_itinerary_Inl)

lemma three_steps_success:
  "stdin w = l1 # l2 # rest \<Longrightarrow>
   invoke (itinerary_prompt l1 (join_py '', '' (map strip (split_py CHR '','' l2)))) = Inr r \<Longrightarrow>
   three_steps invoke state w =
     Inr (state\<lparr>city := l1, interests := map strip (split_py CHR '','' l2),
                messages := messages state @ [HumanMessage l1, HumanMessage l2, AIMessage r],
                itinerary := r\<rparr>,
          final_console w l1 l2 rest r)"
  by (simp add: three_steps_def then_step_def input_city_Cons input_interests_Cons
      create_itinerary_Inr final_console_def)

lemma three_steps_InrD:
  assumes "three_steps invoke state w = Inr (state', w')"
  shows "\<exists>l1 l2 rest r. stdin w = l1 # l2 # rest
     \<and> invoke (itinerary_prompt l1 (join_py '', '' (map strip (split_py CHR '','' l2)))) = Inr r
     \<and> state' = state\<lparr>city := l1, interests := map strip (split_py CHR '','' l2),
                messages := messages state @ [HumanMessage l1, HumanMessage l2, AIMessage r],
                itinerary := r\<rparr>
     \<and> w' = final_console w l1 l2 rest r"
proof (cases "stdin w")
  case Nil
  with assms show ?thesis by (simp add: three_steps_no_line)
next
  case (Cons l1 ls)
  show ?thesis
  proof (cases ls)
    case Nil
    with Cons assms show ?thesis by (simp add: three_steps_one_line)
  next
    case (Cons l2 rest)
    with \<open>stdin w = l1 # ls\<close> have w: "stdin w = l1 # l2 # rest" by simp
    show ?thesis
    proof (cases "invoke (itinerary_prompt l1 (join_py '', '' (map strip (split_py CHR '','' l2))))")
      case (Inl e)
      with w assms show ?thesis by (simp add: three_steps_service_error)
    next
      case (Inr r)
      have "three_steps invoke state w =
          Inr (state\<lparr>city := l1, interests := map strip (split_py CHR '','' l2),
                messages := messages state @ [HumanMessage l1, HumanMessage l2, AIMessage r],
                itinerary := r\<rparr>,
               final_console w l1 l2 rest r)"
        using w Inr by (rule three_steps_success)
      with assms w Inr show ?thesis by auto
    qed
  qed
qed

section \<open>The run of the workflow\<close>

text \<open>
  C1: the notebook's workflow compiles, and for every initial state the run of the
  compiled workflow is the sequential composition of the three steps in the order
  \<open>input_city\<close>, \<open>input_interests\<close>, \<open>create_itinerary\<close>: the run starts at the entry
  step, every step receives the state its predecessor returned, and the state returned
  by the third step is the result of the run.
\<close>

theorem run_is_three_steps:
  "app invoke = Inr (straight_chain invoke)
   \<and> run (straight_chain invoke) state w
       = Some (then_step (then_step (input_city state w) input_interests)
                 (create_itinerary invoke))"
  using app_value run_straight_chain by (simp add: three_steps_def)

text \<open>
  C3: for an initial state with exactly one message, the completed chain of the three
  steps leaves the initial entry followed by three appended entries, one per step: the
  final length is the initial length plus three.
\<close>

theorem messages_after_three_steps:
  assumes "length (messages state) = 1"
    and "three_steps invoke state w = Inr (state', w')"
  shows "length (messages state') = length (messages state) + 3
    \<and> take 1 (messages state') = messages state
    \<and> (\<exists>l1 l2 r. messages state'
          = messages state @ [HumanMessage l1, HumanMessage l2, AIMessage r])"
proof -
  from assms(2) obtain l1 l2 r where
    m: "messages state' = messages state @ [HumanMessage l1, HumanMessage l2, AIMessage r]"
    by (auto dest!: three_steps_InrD)
  with assms(1) show ?thesis by auto
qed

theorem messages_after_three_steps_example:
  "length (messages (initial_state ''I want to plan a day trip.'')) = 1
   \<and> three_steps (\<lambda>p. Inr ''plan'') (initial_state ''I want to plan a day trip.'')
         \<lparr>stdin = [''paris'', ''food''], stdout = []\<rparr>
       = Inr (\<lparr>messages = [HumanMessage ''I want to plan a day trip.'',
                            HumanMessage ''paris'', HumanMessage ''food'',
                            AIMessage ''plan''],
                city = ''paris'', interests = [''food''], itinerary = ''plan''\<rparr>,
              final_console \<lparr>stdin = [''paris'', ''food''], stdout = []\<rparr>
                ''paris'' ''food'' [] ''plan'')
   \<and> length (messages \<lparr>messages = [HumanMessage ''I want to plan a day trip.'',
                            HumanMessage ''paris'', HumanMessage ''food'',
                            AIMessage ''plan''],
                city = ''paris'', interests = [''food''], itinerary = ''plan''\<rparr>) = 4"
proof -
  let ?inv = "(\<lambda>p. Inr ''plan'') :: llm"
  let ?s = "initial_state ''I want to plan a day trip.''"
  let ?w = "\<lparr>stdin = [''paris'', ''food''], stdout = []\<rparr>"
  let ?s' = "\<lparr>messages = [HumanMessage ''I want to plan a day trip.'',
                           HumanMessage ''paris'', HumanMessage ''food'', AIMessage ''plan''],
               city = ''paris'', interests = [''food''], itinerary = ''plan''\<rparr>"
  let ?w' = "final_console ?w ''paris'' ''food'' [] ''plan''"
  have 1: "length (messages ?s) = 1" by (simp add: initial_state_def)
  have v: "map strip (split_py CHR '','' ''food'') = [''food'']"
    by (simp add: split_py_def strip_def lstrip_def rstrip_def isspace_def)
  have 2: "three_steps ?inv ?s ?w = Inr (?s', ?w')"
    by (subst three_steps_success [where ?l1.0 = "''paris''" and ?l2.0 = "''food''"
          and rest = "[]" and r = "''plan''"])
       (simp_all add: v initial_state_def)
  from messages_after_three_steps [OF 1 2] 1 2 show ?thesis by simp
qed

text \<open>
  The state that the chain returns, or its failure, depends on the first two lines of
  the input only: what the console showed before and the lines left unread have no
  influence.
\<close>

lemma three_steps_console_independent:
  assumes "take 2 (stdin w1) = take 2 (stdin w2)"
  shows "map_sum id fst (three_steps invoke state w1)
           = map_sum id fst (three_steps invoke state w2)"
proof (cases "stdin w1")
  case Nil
  with assms have "stdin w2 = []" by (cases "stdin w2") simp_all
  with Nil show ?thesis by (simp add: three_steps_no_line)
next
  case (Cons l1 ls)
  then obtain ls' where 2: "stdin w2 = l1 # ls'" and t: "take 1 ls = take 1 ls'"
    using assms by (cases "stdin w2") (simp_all add: numeral_2_eq_2)
  show ?thesis
  proof (cases ls)
    case Nil
    with t have "ls' = []" by (cases ls') simp_all
    with Nil Cons 2 show ?thesis by (simp add: three_steps_one_line)
  next
    case (Cons l2 rest)
    with t obtain rest' where r: "ls' = l2 # rest'" by (cases ls') simp_all
    have a: "stdin w1 = l1 # l2 # rest" using \<open>stdin w1 = l1 # ls\<close> Cons by simp
    have b: "stdin w2 = l1 # l2 # rest'" using 2 r by simp
    show ?thesis
    proof (cases "invoke (itinerary_prompt l1 (join_py '', '' (map strip (split_py CHR '','' l2))))")
      case (Inl e)
      have "three_steps invoke state w1 = Inl e"
        using a Inl by (rule three_steps_service_error)
      moreover have "three_steps invoke state w2 = Inl e"
        using b Inl by (rule three_steps_service_error)
      ultimately show ?thesis by simp
    next
      case (Inr r)
      have "three_steps invoke state w1 =
          Inr (state\<lparr>city := l1, interests := map strip (split_py CHR '','' l2),
                messages := messages state @ [HumanMessage l1, HumanMessage l2, AIMessage r],
                itinerary := r\<rparr>, final_console w1 l1 l2 rest r)"
        using a Inr by (rule three_steps_success)
      moreover have "three_steps invoke state w2 =
          Inr (state\<lparr>city := l1, interests := map strip (split_py CHR '','' l2),
                messages := messages state @ [HumanMessage l1, HumanMessage l2, AIMessage r],
                itinerary := r\<rparr>, final_console w2 l1 l2 rest' r)"
        using b Inr by (rule three_steps_success)
      ultimately show ?thesis by simp
    qed
  qed
qed

section \<open>Invariants and frame properties of the steps\<close>

lemma input_city_InrD:
  "input_city state w = Inr (state', w') \<Longrightarrow>
   \<exists>line. stdin w = line # stdin w'
     \<and> state' = state\<lparr>city := line, messages := messages state @ [HumanMessage line]\<rparr>"
  by (auto simp: input_city_def input_py_def print_py_def split: list.splits)

lemma input_interests_InrD:
  "input_interests state w = Inr (state', w') \<Longrightarrow>
   \<exists>line. stdin w = line # stdin w'
     \<and> state' = state\<lparr>interests := map strip (split_py CHR '','' line),
                       messages := messages state @ [HumanMessage line]\<rparr>"
  by (auto simp: input_interests_def input_py_def print_py_def split: list.splits)

lemma create_itinerary_InrD:
  "create_itinerary invoke state w = Inr (state', w') \<Longrightarrow>
   \<exists>r. invoke (itinerary_prompt (city state) (join_py '', '' (interests state))) = Inr r
     \<and> state' = state\<lparr>messages := messages state @ [AIMessage r], itinerary := r\<rparr>"
  by (auto simp: create_itinerary_def Let_def split: sum.splits)

lemma split_py_not_Nil: "split_py sep s \<noteq> []"
  by (simp add: split_py_def split_scan_not_Nil)

text \<open>
  C7, as amended: across the run every step returns the messages it received with exactly
  one new entry appended at the end, so the messages strictly grow. Each of the fields
  city, interests and itinerary is written by one step only (the first, the second and
  the third) and kept as it is by the steps that follow. The city written is the first
  line read from the input, as it is; the interests written are the stripped tokens of
  the second line read, never the empty sequence; the itinerary written is the answer of
  the text-generation service to the prompt built from that city and those interests,
  as it is. The city and the itinerary written may be empty.
\<close>

theorem fields_written_once:
  assumes "input_city s0 w0 = Inr (s1, w1)"
    and "input_interests s1 w1 = Inr (s2, w2)"
    and "create_itinerary invoke s2 w2 = Inr (s3, w3)"
  shows "\<exists>l1 l2 r.
      stdin w0 = l1 # l2 # stdin w2
    \<and> invoke (itinerary_prompt l1 (join_py '', '' (map strip (split_py CHR '','' l2))))
        = Inr r
    \<and> messages s1 = messages s0 @ [HumanMessage l1]
    \<and> messages s2 = messages s1 @ [HumanMessage l2]
    \<and> messages s3 = messages s2 @ [AIMessage r]
    \<and> length (messages s0) < length (messages s1)
    \<and> length (messages s1) < length (messages s2)
    \<and> length (messages s2) < length (messages s3)
    \<and> city s1 = l1 \<and> city s2 = l1 \<and> city s3 = l1
    \<and> interests s1 = interests s0
    \<and> interests s2 = map strip (split_py CHR '','' l2) \<and> interests s2 \<noteq> []
    \<and> interests s3 = interests s2
    \<and> itinerary s1 = itinerary s0 \<and> itinerary s2 = itinerary s0 \<and> itinerary s3 = r"
proof -
  from assms(1) obtain l1 where i1: "stdin w0 = l1 # stdin w1"
    and 1: "s1 = s0\<lparr>city := l1, messages := messages s0 @ [HumanMessage l1]\<rparr>"
    by (auto dest: input_city_InrD)
  from assms(2) obtain l2 where i2: "stdin w1 = l2 # stdin w2"
    and 2: "s2 = s1\<lparr>interests := map strip (split_py CHR '','' l2),
                messages := messages s1 @ [HumanMessage l2]\<rparr>"
    by (auto dest: input_interests_InrD)
  from assms(3) obtain r where
    r: "invoke (itinerary_prompt (city s2) (join_py '', '' (interests s2))) = Inr r"
    and 3: "s3 = s2\<lparr>messages := messages s2 @ [AIMessage r], itinerary := r\<rparr>"
    by (auto dest: create_itinerary_InrD)
  have c: "city s2 = l1" and i: "interests s2 = map strip (split_py CHR '','' l2)"
    by (simp_all add: 1 2)
  have "stdin w0 = l1 # l2 # stdin w2" using i1 i2 by simp
  moreover have
    "invoke (itinerary_prompt l1 (join_py '', '' (map strip (split_py CHR '','' l2)))) = Inr r"
    using r by (simp only: c i)
  moreover have "messages s1 = messages s0 @ [HumanMessage l1]" by (simp add: 1)
  moreover have "messages s2 = messages s1 @ [HumanMessage l2]" by (simp add: 2)
  moreover have "messages s3 = messages s2 @ [AIMessage r]" by (simp add: 3)
  moreover have "city s1 = l1 \<and> city s2 = l1 \<and> city s3 = l1" by (simp add: 1 2 3)
  moreover have "interests s1 = interests s0 \<and> interests s3 = interests s2
      \<and> interests s2 \<noteq> []"
    by (simp add: 1 2 3 split_py_not_Nil)
  moreover have "itinerary s1 = itinerary s0 \<and> itinerary s2 = itinerary s0 \<and> itinerary s3 = r"
    by (simp add: 1 2 3)
  ultimately show ?thesis using i by (intro exI [of _ l1] exI [of _ l2] exI [of _ r]) simp
qed

theorem fields_written_once_example:
  "input_city (initial_state ''I want to plan a day trip.'')
       \<lparr>stdin = [''paris'', ''food''], stdout = []\<rparr>
     = Inr (\<lparr>messages = [HumanMessage ''I want to plan a day trip.'', HumanMessage ''paris''],
              city = ''paris'', interests = [], itinerary = ''''\<rparr>,
            \<lparr>stdin = [''food''],
             stdout = [''Please enter the city you want to visit for your day trip:''
                         @ [CHR 0x0A],
                       ''Your input: '']\<rparr>)
   \<and> input_interests
         \<lparr>messages = [HumanMessage ''I want to plan a day trip.'', HumanMessage ''paris''],
           city = ''paris'', interests = [], itinerary = ''''\<rparr>
         \<lparr>stdin = [''food''],
          stdout = [''Please enter the city you want to visit for your day trip:''
                      @ [CHR 0x0A],
                    ''Your input: '']\<rparr>
     = Inr (\<lparr>messages = [HumanMessage ''I want to plan a day trip.'', HumanMessage ''paris'',
                           HumanMessage ''food''],
              city = ''paris'', interests = [''food''], itinerary = ''''\<rparr>,
            \<lparr>stdin = [],
             stdout = [''Please enter the city you want to visit for your day trip:''
                         @ [CHR 0x0A],
                       ''Your input: '',
                       ''Please enter your interests for the trip to paris (comma-separated):''
                         @ [CHR 0x0A],
                       ''Your input: '']\<rparr>)
   \<and> create_itinerary (\<lambda>p. Inr ''plan'')
         \<lparr>messages = [HumanMessage ''I want to plan a day trip.'', HumanMessage ''paris'',
                       HumanMessage ''food''],
           city = ''paris'', interests = [''food''], itinerary = ''''\<rparr>
         \<lparr>stdin = [],
          stdout = [''Please enter the city you want to visit for your day trip:''
                      @ [CHR 0x0A],
                    ''Your input: '',
                    ''Please enter your interests for the trip to paris (comma-separated):''
                      @ [CHR 0x0A],
                    ''Your input: '']\<rparr>
     = Inr (\<lparr>messages = [HumanMessage ''I want to plan a day trip.'', HumanMessage ''paris'',
                           HumanMessage ''food'', AIMessage ''plan''],
              city = ''paris'', interests = [''food''], itinerary = ''plan''\<rparr>,
            final_console \<lparr>stdin = [''paris'', ''food''], stdout = []\<rparr>
              ''paris'' ''food'' [] ''plan'')
   \<and> (\<exists>l1 l2 r.
         stdin \<lparr>stdin = [''paris'', ''food''], stdout = []\<rparr> = l1 # l2 # []
       \<and> (Inr ''plan'' :: error + string) = Inr r
       \<and> city \<lparr>messages = [HumanMessage ''I want to plan a day trip.'',
                             HumanMessage ''paris'', HumanMessage ''food'', AIMessage ''plan''],
                 city = ''paris'', interests = [''food''], itinerary = ''plan''\<rparr> = l1
       \<and> [''food''] = map strip (split_py CHR '','' l2)
       \<and> itinerary \<lparr>messages = [HumanMessage ''I want to plan a day trip.'',
                             HumanMessage ''paris'', HumanMessage ''food'', AIMessage ''plan''],
                 city = ''paris'', interests = [''food''], itinerary = ''plan''\<rparr> = r)"
proof -
  let ?inv = "(\<lambda>p. Inr ''plan'') :: llm"
  let ?s0 = "initial_state ''I want to plan a day trip.''"
  let ?w0 = "\<lparr>stdin = [''paris'', ''food''], stdout = []\<rparr>"
  let ?s1 = "\<lparr>messages = [HumanMessage ''I want to plan a day trip.'', HumanMessage ''paris''],
              city = ''paris'', interests = [], itinerary = ''''\<rparr>"
  let ?w1 = "\<lparr>stdin = [''food''],
             stdout = [''Please enter the city you want to visit for your day trip:''
                         @ [CHR 0x0A],
                       ''Your input: '']\<rparr>"
  let ?s2 = "\<lparr>messages = [HumanMessage ''I want to plan a day trip.'', HumanMessage ''paris'',
                           HumanMessage ''food''],
              city = ''paris'', interests = [''food''], itinerary = ''''\<rparr>"
  let ?w2 = "\<lparr>stdin = [],
             stdout = [''Please enter the city you want to visit for your day trip:''
                         @ [CHR 0x0A],
                       ''Your input: '',
                       ''Please enter your interests for the trip to paris (comma-separated):''
                         @ [CHR 0x0A],
                       ''Your input: '']\<rparr>"
  let ?s3 = "\<lparr>messages = [HumanMessage ''I want to plan a day trip.'', HumanMessage ''paris'',
                           HumanMessage ''food'', AIMessage ''plan''],
              city = ''paris'', interests = [''food''], itinerary = ''plan''\<rparr>"
  let ?w3 = "final_console ?w0 ''paris'' ''food'' [] ''plan''"
  have v: "map strip (split_py CHR '','' ''food'') = [''food'']"
    by (simp add: split_py_def strip_def lstrip_def rstrip_def isspace_def)
  have 1: "input_city ?s0 ?w0 = Inr (?s1, ?w1)"
    by (subst input_city_Cons [where line = "''paris''" and rest = "[''food'']"])
       (simp_all add: initial_state_def)
  have 2: "input_interests ?s1 ?w1 = Inr (?s2, ?w2)"
    by (subst input_interests_Cons [where line = "''food''" and rest = "[]"])
       (simp_all add: v)
  have 3: "create_itinerary ?inv ?s2 ?w2 = Inr (?s3, ?w3)"
    by (simp add: create_itinerary_def print_py_def final_console_def v)
  from fields_written_once [OF 1 2 3]
  obtain l1 l2 r where "stdin ?w0 = l1 # l2 # stdin ?w2"
    and "?inv (itinerary_prompt l1 (join_py '', '' (map strip (split_py CHR '','' l2)))) = Inr r"
    and "city ?s3 = l1" and "interests ?s2 = map strip (split_py CHR '','' l2)"
    and "itinerary ?s3 = r"
    by blast
  then have "\<exists>l1 l2 r. stdin ?w0 = l1 # l2 # []
       \<and> (Inr ''plan'' :: error + string) = Inr r
       \<and> city ?s3 = l1 \<and> [''food''] = map strip (split_py CHR '','' l2) \<and> itinerary ?s3 = r"
    by (intro exI [of _ l1] exI [of _ l2] exI [of _ r]) simp
  with 1 2 3 show ?thesis by (intro conjI)
qed

text \<open>
  C7 fails as stated: when the line read for the city is empty, the city field is still
  empty after the city step and at the end of the run, and when the answer of the
  text-generation service is empty, so is the itinerary at the end of the run. Neither
  field has made a transition to a populated value.
\<close>

theorem city_and_itinerary_stay_empty:
  "\<not> isl (input_city (initial_state ''I want to plan a day trip.'')
            \<lparr>stdin = ['''', ''food''], stdout = []\<rparr>)
   \<and> city (initial_state ''I want to plan a day trip.'') = ''''
   \<and> city (fst (projr (input_city (initial_state ''I want to plan a day trip.'')
            \<lparr>stdin = ['''', ''food''], stdout = []\<rparr>))) = ''''
   \<and> \<not> isl (three_steps (\<lambda>p. Inr '''') (initial_state ''I want to plan a day trip.'')
            \<lparr>stdin = ['''', ''food''], stdout = []\<rparr>)
   \<and> city (fst (projr (three_steps (\<lambda>p. Inr '''')
            (initial_state ''I want to plan a day trip.'')
            \<lparr>stdin = ['''', ''food''], stdout = []\<rparr>))) = ''''
   \<and> itinerary (initial_state ''I want to plan a day trip.'') = ''''
   \<and> itinerary (fst (projr (three_steps (\<lambda>p. Inr '''')
            (initial_state ''I want to plan a day trip.'')
            \<lparr>stdin = ['''', ''food''], stdout = []\<rparr>))) = ''''"
proof -
  have 1: "input_city (initial_state ''I want to plan a day trip.'')
             \<lparr>stdin = ['''', ''food''], stdout = []\<rparr>
           = Inr ((initial_state ''I want to plan a day trip.'')
                    \<lparr>city := '''',
                      messages := messages (initial_state ''I want to plan a day trip.'')
                        @ [HumanMessage '''']\<rparr>,
                  \<lparr>stdin = ['''', ''food''], stdout = []\<rparr>
                    \<lparr>stdin := [''food''],
                      stdout := stdout \<lparr>stdin = ['''', ''food''], stdout = []\<rparr>
                        @ [''Please enter the city you want to visit for your day trip:''
                             @ [CHR 0x0A],
                           ''Your input: '']\<rparr>)"
    by (rule input_city_Cons) simp
  have 2: "three_steps (\<lambda>p. Inr '''') (initial_state ''I want to plan a day trip.'')
             \<lparr>stdin = ['''', ''food''], stdout = []\<rparr>
           = Inr ((initial_state ''I want to plan a day trip.'')
                    \<lparr>city := '''', interests := map strip (split_py CHR '','' ''food''),
                      messages := messages (initial_state ''I want to plan a day trip.'')
                        @ [HumanMessage '''', HumanMessage ''food'', AIMessage ''''],
                      itinerary := ''''\<rparr>,
                  final_console \<lparr>stdin = ['''', ''food''], stdout = []\<rparr>
                    '''' ''food'' [] '''')"
    by (rule three_steps_success) simp_all
  show ?thesis
    by (simp only: 1 2) (simp add: initial_state_def)
qed

text \<open>
  C10: each step changes its own fields only. \<open>input_city\<close> changes the city and the
  messages, \<open>input_interests\<close> the interests and the messages, \<open>create_itinerary\<close> the
  itinerary and the messages; every other field keeps its value. After
  \<open>create_itinerary\<close> the itinerary is the content of the assistant message it appended.
\<close>

theorem steps_change_own_fields:
  "(input_city s w = Inr (s', w') \<longrightarrow>
      s' = s\<lparr>city := city s', messages := messages s'\<rparr>
      \<and> interests s' = interests s \<and> itinerary s' = itinerary s)
   \<and> (input_interests t v = Inr (t', v') \<longrightarrow>
      t' = t\<lparr>interests := interests t', messages := messages t'\<rparr>
      \<and> city t' = city t \<and> itinerary t' = itinerary t)
   \<and> (create_itinerary invoke u x = Inr (u', x') \<longrightarrow>
      u' = u\<lparr>itinerary := itinerary u', messages := messages u'\<rparr>
      \<and> city u' = city u \<and> interests u' = interests u
      \<and> messages u' = messages u @ [AIMessage (itinerary u')]
      \<and> itinerary u' = content (last (messages u')))"
  by (auto dest!: input_city_InrD input_interests_InrD create_itinerary_InrD)

theorem steps_change_own_fields_example:
  "input_city \<lparr>messages = [], city = ''rome'', interests = [''art''], itinerary = ''old''\<rparr>
       \<lparr>stdin = [''paris''], stdout = []\<rparr>
     = Inr (\<lparr>messages = [HumanMessage ''paris''], city = ''paris'', interests = [''art''],
              itinerary = ''old''\<rparr>,
            \<lparr>stdin = [],
             stdout = [''Please enter the city you want to visit for your day trip:''
                         @ [CHR 0x0A],
                       ''Your input: '']\<rparr>)
   \<and> input_interests
         \<lparr>messages = [], city = ''rome'', interests = [''art''], itinerary = ''old''\<rparr>
         \<lparr>stdin = [''food''], stdout = []\<rparr>
     = Inr (\<lparr>messages = [HumanMessage ''food''], city = ''rome'', interests = [''food''],
              itinerary = ''old''\<rparr>,
            \<lparr>stdin = [],
             stdout = [''Please enter your interests for the trip to rome (comma-separated):''
                         @ [CHR 0x0A],
                       ''Your input: '']\<rparr>)
   \<and> create_itinerary (\<lambda>p. Inr ''plan'')
         \<lparr>messages = [], city = ''rome'', interests = [''art''], itinerary = ''old''\<rparr>
         \<lparr>stdin = [], stdout = []\<rparr>
     = Inr (\<lparr>messages = [AIMessage ''plan''], city = ''rome'', interests = [''art''],
              itinerary = ''plan''\<rparr>,
            \<lparr>stdin = [],
             stdout = [''Creating an itinerary for rome based on interests: art...''
                         @ [CHR 0x0A],
                       CHR 0x0A # ''Final Itinerary:'' @ [CHR 0x0A],
                       ''plan'' @ [CHR 0x0A]]\<rparr>)
   \<and> interests \<lparr>messages = [HumanMessage ''paris''], city = ''paris'', interests = [''art''],
                  itinerary = ''old''\<rparr> = [''art'']
   \<and> city \<lparr>messages = [HumanMessage ''food''], city = ''rome'', interests = [''food''],
             itinerary = ''old''\<rparr> = ''rome''
   \<and> itinerary \<lparr>messages = [AIMessage ''plan''], city = ''rome'', interests = [''art''],
                  itinerary = ''plan''\<rparr>
       = content (last [AIMessage ''plan''])"
proof -
  let ?s = "\<lparr>messages = [], city = ''rome'', interests = [''art''], itinerary = ''old''\<rparr>"
  have v: "map strip (split_py CHR '','' ''food'') = [''food'']"
    by (simp add: split_py_def strip_def lstrip_def rstrip_def isspace_def)
  have 1: "input_city ?s \<lparr>stdin = [''paris''], stdout = []\<rparr>
     = Inr (\<lparr>messages = [HumanMessage ''paris''], city = ''paris'', interests = [''art''],
              itinerary = ''old''\<rparr>,
            \<lparr>stdin = [],
             stdout = [''Please enter the city you want to visit for your day trip:''
                         @ [CHR 0x0A],
                       ''Your input: '']\<rparr>)"
    by (subst input_city_Cons [where line = "''paris''" and rest = "[]"]) simp_all
  have 2: "input_interests ?s \<lparr>stdin = [''food''], stdout = []\<rparr>
     = Inr (\<lparr>messages = [HumanMessage ''food''], city = ''rome'', interests = [''food''],
              itinerary = ''old''\<rparr>,
            \<lparr>stdin = [],
             stdout = [''Please enter your interests for the trip to rome (comma-separated):''
                         @ [CHR 0x0A],
                       ''Your input: '']\<rparr>)"
    by (subst input_interests_Cons [where line = "''food''" and rest = "[]"])
       (simp_all add: v)
  have 3: "create_itinerary (\<lambda>p. Inr ''plan'') ?s \<lparr>stdin = [], stdout = []\<rparr>
     = Inr (\<lparr>messages = [AIMessage ''plan''], city = ''rome'', interests = [''art''],
              itinerary = ''plan''\<rparr>,
            \<lparr>stdin = [],
             stdout = [''Creating an itinerary for rome based on interests: art...''
                         @ [CHR 0x0A],
                       CHR 0x0A # ''Final Itinerary:'' @ [CHR 0x0A],
                       ''plan'' @ [CHR 0x0A]]\<rparr>)"
    by (simp add: create_itinerary_def print_py_def)
  from steps_change_own_fields
         [of ?s "\<lparr>stdin = [''paris''], stdout = []\<rparr>" _ _
             ?s "\<lparr>stdin = [''food''], stdout = []\<rparr>" _ _
             "\<lambda>p. Inr ''plan''" ?s "\<lparr>stdin = [], stdout = []\<rparr>"]
       1 2 3
  show ?thesis by simp
qed

section \<open>Configuration errors\<close>

lemma apply_call_error:
  "apply_call c g = Inl e \<Longrightarrow> \<exists>msg. e = ConfigurationError msg"
  by (cases c) (auto split: if_splits)

lemma configure_error:
  "configure cs g = Inl e \<Longrightarrow> \<exists>msg. e = ConfigurationError msg"
proof (induction cs arbitrary: g)
  case Nil
  then show ?case by simp
next
  case (Cons c cs)
  then show ?case
    by (cases "apply_call c g") (auto dest: apply_call_error)
qed

lemma compile_error:
  "compile g = Inl e \<Longrightarrow> \<exists>msg. e = ConfigurationError msg"
  by (auto simp: compile_def split: option.splits if_splits)

lemma apply_call_keeps_registered:
  "apply_call c g = Inr g' \<Longrightarrow> registered g name \<Longrightarrow> registered g' name"
  by (cases c) (auto simp: registered_def split: if_splits)

lemma add_node_registers:
  "apply_call (add_node name f) g = Inr g' \<Longrightarrow> registered g' name"
  by (auto simp: registered_def split: if_splits)

lemma configure_keeps_registered:
  "configure cs g = Inr g' \<Longrightarrow> registered g name \<Longrightarrow> registered g' name"
proof (induction cs arbitrary: g)
  case Nil
  then show ?case by simp
next
  case (Cons c cs)
  then show ?case
    by (cases "apply_call c g") (auto dest: apply_call_keeps_registered)
qed

lemma configure_append:
  "configure (xs @ ys) g =
     (case configure xs g of Inl e \<Rightarrow> Inl e | Inr g' \<Rightarrow> configure ys g')"
  by (induction xs arbitrary: g) (auto split: sum.splits)

lemma configure_registers:
  "configure cs g = Inr g' \<Longrightarrow> add_node name f \<in> set cs \<Longrightarrow> registered g' name"
proof (induction cs arbitrary: g)
  case Nil
  then show ?case by simp
next
  case (Cons c cs)
  from Cons.prems(1) obtain g1 where g1: "apply_call c g = Inr g1" "configure cs g1 = Inr g'"
    by (cases "apply_call c g") auto
  show ?case
  proof (cases "c = add_node name f")
    case True
    with g1(1) have "apply_call (add_node name f) g = Inr g1" by simp
    then have "registered g1 name" by (rule add_node_registers)
    with g1(2) show ?thesis by (rule configure_keeps_registered)
  next
    case False
    with Cons.prems(2) have "add_node name f \<in> set cs" by simp
    with g1 Cons.IH show ?thesis by blast
  qed
qed

lemma configure_duplicate:
  assumes "i < j" and "j < length calls"
    and "calls ! i = add_node name f" and "calls ! j = add_node name f'"
  shows "\<exists>msg. configure calls g = Inl (ConfigurationError msg)"
proof -
  have split: "calls = take j calls @ add_node name f' # drop (Suc j) calls"
    using assms(2,4) by (metis id_take_nth_drop)
  have mem: "add_node name f \<in> set (take j calls)"
    using assms(1,2,3) by (metis in_set_conv_nth length_take min.absorb2 nth_take
        less_imp_le_nat)
  show ?thesis
  proof (cases "configure (take j calls) g")
    case (Inl e)
    then have "configure calls g = Inl e"
      by (subst split) (simp add: configure_append)
    with Inl show ?thesis by (auto dest: configure_error)
  next
    case (Inr g1)
    then have "registered g1 name" using mem by (rule configure_registers)
    then have "apply_call (add_node name f') g1
                 = Inl (ConfigurationError ''step already registered'')"
      by simp
    with Inr have "configure calls g = Inl (ConfigurationError ''step already registered'')"
      by (subst split) (simp add: configure_append)
    then show ?thesis by blast
  qed
qed

text \<open>
  C8: registering a step under a name that is registered already fails with a
  configuration error. A configuration script that registers two steps under the same
  name therefore fails with a configuration error during configuration: no compiled
  workflow comes out of it, so there is nothing that could be run.
\<close>

theorem duplicate_registration_fails:
  "(registered g name \<longrightarrow>
      apply_call (add_node name h) g = Inl (ConfigurationError ''step already registered''))
   \<and> (i < j \<and> j < length calls \<and> calls ! i = add_node name f \<and> calls ! j = add_node name f'
      \<longrightarrow> (\<exists>msg. configure calls g0 = Inl (ConfigurationError msg))
        \<and> (\<exists>msg. (case configure calls g0 of Inl e \<Rightarrow> Inl e | Inr g' \<Rightarrow> compile g')
                   = Inl (ConfigurationError msg)))"
proof (intro conjI impI)
  assume "registered g name"
  then show "apply_call (add_node name h) g = Inl (ConfigurationError ''step already registered'')"
    by simp
next
  assume a: "i < j \<and> j < length calls \<and> calls ! i = add_node name f \<and> calls ! j = add_node name f'"
  then show c: "\<exists>msg. configure calls g0 = Inl (ConfigurationError msg)"
    using configure_duplicate [of i j calls name f f' g0] by blast
  then show "\<exists>msg. (case configure calls g0 of Inl e \<Rightarrow> Inl e | Inr g' \<Rightarrow> compile g')
                   = Inl (ConfigurationError msg)"
    by auto
qed

theorem duplicate_registration_example:
  "registered \<lparr>nodes = [(''input_city'', input_city)], entry_point = None, edges = []\<rparr>
     ''input_city''
   \<and> apply_call (add_node ''input_city'' input_interests)
        \<lparr>nodes = [(''input_city'', input_city)], entry_point = None, edges = []\<rparr>
      = Inl (ConfigurationError ''step already registered'')
   \<and> (0::nat) < 1
   \<and> 1 < length [add_node ''input_city'' input_city, add_node ''input_city'' input_interests,
                  set_entry_point ''input_city'', add_edge ''input_city'' END]
   \<and> (\<exists>msg. (case configure [add_node ''input_city'' input_city,
                              add_node ''input_city'' input_interests,
                              set_entry_point ''input_city'', add_edge ''input_city'' END]
                    \<lparr>nodes = [], entry_point = None, edges = []\<rparr>
              of Inl e \<Rightarrow> Inl e | Inr g' \<Rightarrow> compile g')
            = Inl (ConfigurationError msg))"
proof -
  let ?g = "\<lparr>nodes = [(''input_city'', input_city)], entry_point = None, edges = []\<rparr>"
  let ?calls = "[add_node ''input_city'' input_city, add_node ''input_city'' input_interests,
                 set_entry_point ''input_city'', add_edge ''input_city'' END]"
  have r: "registered ?g ''input_city''" by (simp add: registered_def)
  have h: "(0::nat) < 1 \<and> 1 < length ?calls \<and> ?calls ! 0 = add_node ''input_city'' input_city
           \<and> ?calls ! 1 = add_node ''input_city'' input_interests"
    by simp
  from duplicate_registration_fails
         [where g = ?g and name = "''input_city''" and h = input_interests and i = 0
            and j = 1 and calls = ?calls and f = input_city and f' = input_interests
            and ?g0.0 = "\<lparr>nodes = [], entry_point = None, edges = []\<rparr>"]
       r h
  show ?thesis by blast
qed

section \<open>The missing credential\<close>

text \<open>
  C9, as amended: when the service API key is absent from the process environment and
  the \<open>.env\<close> file does not supply it either, the notebook fails in its first cell,
  before the language-model client is constructed and before the workflow is built or
  run, so no call reaches the text-generation service. The failure is the \<open>TypeError\<close>
  that the assignment to \<open>os.environ\<close> raises, not a configuration error.
\<close>

theorem missing_api_key_fails_fast:
  "environ ''OPENAI_API_KEY'' = None \<Longrightarrow> dotenv ''OPENAI_API_KEY'' = None \<Longrightarrow>
   environment_setup dotenv environ = Inl (TypeError ''str expected, not NoneType'')
   \<and> notebook dotenv environ ChatOpenAI w
       = Some (Inl (TypeError ''str expected, not NoneType''))
   \<and> (\<forall>e. notebook dotenv environ ChatOpenAI w = Some (Inl e)
          \<longrightarrow> \<not> is_configuration_error e)"
  by (simp add: notebook_def environment_setup_def environ_setitem_def getenv_def
      load_dotenv_def map_add_def)

theorem missing_api_key_example:
  "(Map.empty :: env) ''OPENAI_API_KEY'' = None
   \<and> [''OTHER'' \<mapsto> ''value''] ''OPENAI_API_KEY'' = None
   \<and> environment_setup [''OTHER'' \<mapsto> ''value''] Map.empty
       = Inl (TypeError ''str expected, not NoneType'')
   \<and> notebook [''OTHER'' \<mapsto> ''value''] Map.empty (\<lambda>environ. Inr (\<lambda>p. Inr ''plan''))
         \<lparr>stdin = [''paris'', ''food''], stdout = []\<rparr>
       = Some (Inl (TypeError ''str expected, not NoneType''))"
proof -
  have 1: "(Map.empty :: env) ''OPENAI_API_KEY'' = None" by simp
  have 2: "[''OTHER'' \<mapsto> ''value''] ''OPENAI_API_KEY'' = None" by simp
  from missing_api_key_fails_fast
         [where environ = "Map.empty" and dotenv = "[''OTHER'' \<mapsto> ''value'']"
            and ChatOpenAI = "\<lambda>environ. Inr (\<lambda>p. Inr ''plan'')"
            and w = "\<lparr>stdin = [''paris'', ''food''], stdout = []\<rparr>"]
       1 2
  show ?thesis by blast
qed

text \<open>
  C9 fails as stated: with the key absent from the environment and no \<open>.env\<close> file,
  the notebook ends with a \<open>TypeError\<close>, which is not a configuration error.
\<close>

theorem missing_api_key_raises_type_error:
  "notebook Map.empty Map.empty (\<lambda>environ. Inr (\<lambda>p. Inr ''plan''))
       \<lparr>stdin = [''paris'', ''food''], stdout = []\<rparr>
     = Some (Inl (TypeError ''str expected, not NoneType''))
   \<and> \<not> is_configuration_error (TypeError ''str expected, not NoneType'')"
  by (simp add: notebook_def environment_setup_def environ_setitem_def getenv_def
      load_dotenv_def)

end
